theory Spec2Isabelle
  imports Main "HOL-Library.Multiset"
begin

section \<open>Prescription fulfillment dashboard: the lifecycle engine of App.js\<close>

text \<open>
  The development embeds the non-presentational core of \<^verbatim>\<open>src/App.js\<close>: the helper
  functions \<^verbatim>\<open>addMonths\<close> and \<^verbatim>\<open>formatDate\<close>, the creation branch of
  \<^verbatim>\<open>SubscriptionForm.handleSubmit\<close>, the status derivation of the snapshot handler,
  \<^verbatim>\<open>addLog\<close>, \<^verbatim>\<open>updateFulfillment\<close>, \<^verbatim>\<open>getNextActionableDate\<close> and the comparator of
  \<^verbatim>\<open>sortedSubscriptions\<close>.

  JavaScript strings are \<^typ>\<open>string\<close>; \<^verbatim>\<open>null\<close> in an optional field is \<^const>\<open>None\<close>.
\<close>

subsection \<open>Dates\<close>

text \<open>
  A JavaScript \<^verbatim>\<open>Date\<close> is kept by its local calendar fields, the ones \<^verbatim>\<open>getMonth\<close>,
  \<^verbatim>\<open>setMonth\<close> and \<^verbatim>\<open>toLocaleDateString\<close> work on. The local time zone is taken to be
  UTC, so \<^verbatim>\<open>getTime\<close> is ECMAScript's \<^verbatim>\<open>MakeDate(MakeDay(year, month, date), time)\<close>.
  Years are those of the common era (a Firestore timestamp lies between the years 1 and
  9999).
\<close>

record jsdate =
  fullYear :: nat
  monthIndex :: nat
  dayOfMonth :: nat
  timeInDay :: nat

definition inLeapYear :: "nat \<Rightarrow> bool" where
  "inLeapYear y = (y mod 4 = 0 \<and> (y mod 100 \<noteq> 0 \<or> y mod 400 = 0))"

definition daysInMonth :: "nat \<Rightarrow> nat \<Rightarrow> nat" where
  "daysInMonth y m =
     (if m = 1 then (if inLeapYear y then 29 else 28)
      else if m = 3 \<or> m = 5 \<or> m = 8 \<or> m = 10 then 30
      else 31)"

text \<open>ECMAScript's \<^verbatim>\<open>DayFromYear\<close>: the day number of 1 January of year \<open>y\<close>, day 0 being
  1 January 1970.\<close>

definition dayFromYear :: "nat \<Rightarrow> int" where
  "dayFromYear y =
     365 * (int y - 1970) + (int y - 1969) div 4 - (int y - 1901) div 100
       + (int y - 1601) div 400"

definition makeDay :: "nat \<Rightarrow> nat \<Rightarrow> nat \<Rightarrow> int" where
  "makeDay y m d =
     (let ym = y + m div 12; mn = m mod 12
      in dayFromYear ym + int (\<Sum>k \<leftarrow> [0..<mn]. daysInMonth ym k) + int d - 1)"

definition getTime :: "jsdate \<Rightarrow> int" where
  "getTime d = makeDay (fullYear d) (monthIndex d) (dayOfMonth d) * 86400000 + int (timeInDay d)"

definition getMonth :: "jsdate \<Rightarrow> nat" where
  "getMonth d = monthIndex d"

text \<open>
  \<^verbatim>\<open>setMonth\<close> keeps the day of the month and the time of day. A month index of 12 or more
  carries into the year, and a day of the month that the target month does not have
  runs over into the following month (31 January plus one month is 2 or 3 March).
\<close>

function rollOver :: "nat \<Rightarrow> nat \<Rightarrow> nat \<Rightarrow> nat \<times> nat \<times> nat" where
  "rollOver y m d =
     (if d \<le> daysInMonth y m then (y, m, d)
      else if m = 11 then rollOver (Suc y) 0 (d - daysInMonth y m)
      else rollOver y (Suc m) (d - daysInMonth y m))"
  by pat_completeness auto
termination
  by (relation "measure (\<lambda>(y, m, d). d)") (auto simp: daysInMonth_def)

declare rollOver.simps [simp del]

definition setMonth :: "jsdate \<Rightarrow> nat \<Rightarrow> jsdate" where
  "setMonth dt m =
     (case rollOver (fullYear dt + m div 12) (m mod 12) (dayOfMonth dt) of
        (y', m', d') \<Rightarrow> dt\<lparr>fullYear := y', monthIndex := m', dayOfMonth := d'\<rparr>)"

definition addMonths :: "jsdate \<Rightarrow> nat \<Rightarrow> jsdate" where
  "addMonths date months = setMonth date (getMonth date + months)"

text \<open>Decimal digits of a number, as a template literal or \<^verbatim>\<open>String\<close> prints them.\<close>

function numberToString :: "nat \<Rightarrow> string" where
  "numberToString n =
     (if n < 10 then [char_of (48 + n)]
      else numberToString (n div 10) @ [char_of (48 + n mod 10)])"
  by pat_completeness auto
termination
  by (relation "measure id") auto

declare numberToString.simps [simp del]

text \<open>\<^verbatim>\<open>toLocaleDateString('en-US')\<close>: month/day/year, no padding.\<close>

definition toLocaleDateString :: "jsdate \<Rightarrow> string" where
  "toLocaleDateString d =
     numberToString (monthIndex d + 1) @ ''/'' @ numberToString (dayOfMonth d) @ ''/''
       @ numberToString (fullYear d)"

definition formatDate :: "jsdate option \<Rightarrow> string" where
  "formatDate date = (case date of None \<Rightarrow> ''N/A'' | Some d \<Rightarrow> toLocaleDateString d)"

subsection \<open>Records of the data model\<close>

text \<open>
  Statuses and actors are the strings the code compares and writes. Every fulfillment
  carries its date, as every fulfillment the creation form makes does; the code calls
  \<^verbatim>\<open>getTime\<close> on it without a check.
\<close>

record fulfillment =
  fulfillmentDate :: jsdate
  status :: string
  tracking :: "string option"
  rxId :: "string option"

record logEntry =
  date :: jsdate
  message :: string
  actor :: string

text \<open>
  A subscription as the component state holds it. \<open>doc_id\<close> is the field \<^verbatim>\<open>id\<close>: the
  snapshot handler sets it from the document's id, and the data the creation form
  submits has none. An absent \<^verbatim>\<open>fulfillments\<close> or \<^verbatim>\<open>communicationLog\<close> array is the
  empty list, which is what the snapshot handler's \<^verbatim>\<open>|| []\<close> makes of it.
\<close>

record subscription =
  doc_id :: "string option"
  patientName :: string
  drugName :: string
  newRxCall :: bool
  duration :: int
  status :: string
  physicianStatus :: string
  startDate :: jsdate
  fulfillments :: "fulfillment list"
  communicationLog :: "logEntry list"

subsection \<open>Status derivation (the snapshot handler)\<close>

definition overallStatus :: "subscription \<Rightarrow> string" where
  "overallStatus sub =
     (let allFulfilled = list_all (\<lambda>f. fulfillment.status f = ''Shipped'') (fulfillments sub);
          requiresAction = list_ex (\<lambda>f. fulfillment.status f = ''RX Received'') (fulfillments sub)
      in if subscription.status sub \<noteq> ''On Hold''
         then (if allFulfilled then ''Fulfilled''
               else if requiresAction then ''Action Required''
               else ''Active'')
         else subscription.status sub)"

definition updatedSubs :: "subscription list \<Rightarrow> subscription list" where
  "updatedSubs subs = map (\<lambda>sub. sub\<lparr>subscription.status := overallStatus sub\<rparr>) subs"

text \<open>
  The store holds each document's data under its id, in the order of the query
  snapshot. The handler puts the id into the record and derives the status.
\<close>

type_synonym store = "(string \<times> subscription) list"

definition onSnapshot :: "store \<Rightarrow> subscription list" where
  "onSnapshot docs =
     updatedSubs (map (\<lambda>(i, data). case doc_id data of
                                      None \<Rightarrow> data\<lparr>doc_id := Some i\<rparr>
                                    | Some _ \<Rightarrow> data) docs)"

text \<open>
  The handler builds \<^verbatim>\<open>{id: doc.id, ...data}\<close>, so a field \<^verbatim>\<open>id\<close> in the data would win
  over the document's id. The application writes none: the creation form submits data
  without it, the update of an edited subscription strips it, and no patch names it.
  \<open>plainData\<close> says so of a store.
\<close>

definition plainData :: "store \<Rightarrow> bool" where
  "plainData ds = list_all (\<lambda>(i, data). doc_id data = None) ds"

subsection \<open>Creating a subscription (SubscriptionForm.handleSubmit)\<close>

text \<open>
  The form's state. \<open>form_duration\<close> is the number \<^verbatim>\<open>parseInt(formData.duration, 10)\<close>
  yields (the select offers 1, 3 and 6); \<open>form_startDate\<close> is the formatted string that
  both branches overwrite.
\<close>

record formData =
  form_patientName :: string
  form_drugName :: string
  form_newRxCall :: bool
  form_duration :: int
  form_status :: string
  form_physicianStatus :: string
  form_startDate :: string

text \<open>The \<^verbatim>\<open>for\<close> loop of the creation branch: \<open>i\<close> counts up while \<open>i < duration\<close>, and each
  round pushes one fulfillment. \<open>dateNow\<close> is the value of \<^verbatim>\<open>Date.now()\<close>.\<close>

function pushFulfillments ::
  "jsdate \<Rightarrow> nat \<Rightarrow> int \<Rightarrow> nat \<Rightarrow> fulfillment list \<Rightarrow> fulfillment list" where
  "pushFulfillments startDate' dateNow n i fs =
     (if int i < n
      then pushFulfillments startDate' dateNow n (Suc i)
             (fs @ [\<lparr>fulfillmentDate = addMonths startDate' i,
                     status = (if i = 0 then ''RX Received'' else ''Scheduled''),
                     tracking = None,
                     rxId = (if i = 0 then Some (''RX-INITIAL-'' @ numberToString dateNow)
                             else None)\<rparr>])
      else fs)"
  by pat_completeness auto
termination
  by (relation "measure (\<lambda>(s, t, n, i, fs). nat (n - int i))") auto

declare pushFulfillments.simps [simp del]

text \<open>\<open>editing\<close> is the prop \<^verbatim>\<open>subscription\<close> (\<^const>\<open>None\<close> when a new subscription is
  created); \<open>newDate\<close> and \<open>logDate\<close> are the two values of \<^verbatim>\<open>new Date()\<close>.\<close>

definition handleSubmit ::
  "formData \<Rightarrow> subscription option \<Rightarrow> jsdate \<Rightarrow> nat \<Rightarrow> jsdate \<Rightarrow> subscription" where
  "handleSubmit fd editing newDate dateNow logDate =
     (case editing of
        Some sub \<Rightarrow>
          \<lparr>doc_id = doc_id sub,
           patientName = form_patientName fd, drugName = form_drugName fd,
           newRxCall = form_newRxCall fd, duration = form_duration fd,
           status = form_status fd, physicianStatus = form_physicianStatus fd,
           startDate = startDate sub,
           fulfillments = fulfillments sub,
           communicationLog = communicationLog sub\<rparr>
      | None \<Rightarrow>
          \<lparr>doc_id = None,
           patientName = form_patientName fd, drugName = form_drugName fd,
           newRxCall = form_newRxCall fd, duration = form_duration fd,
           status = form_status fd, physicianStatus = form_physicianStatus fd,
           startDate = newDate,
           fulfillments = pushFulfillments newDate dateNow (form_duration fd) 0 [],
           communicationLog =
             [\<lparr>date = logDate, message = ''Subscription created.'', actor = ''System''\<rparr>]\<rparr>)"

subsection \<open>The store, addLog and updateFulfillment\<close>

text \<open>
  What the operations change: the documents of the store and the error message of the
  component. \<^verbatim>\<open>updateDoc\<close> patches the named fields of one document and is rejected
  (\<^const>\<open>None\<close>) when the store has no such document; other persistence failures are not
  modelled.
\<close>

record app =
  docs :: store
  error :: "string option"

definition updateDoc :: "string \<Rightarrow> (subscription \<Rightarrow> subscription) \<Rightarrow> store \<Rightarrow> store option" where
  "updateDoc docId patch ds =
     (if docId \<in> set (map fst ds)
      then Some (map (\<lambda>(i, data). if i = docId then (i, patch data) else (i, data)) ds)
      else None)"

text \<open>\<open>subscriptions\<close> is the component state the closure reads, and \<open>now\<close> the value of
  \<^verbatim>\<open>new Date()\<close>.\<close>

definition addLog ::
  "subscription list \<Rightarrow> jsdate \<Rightarrow> string \<Rightarrow> string \<Rightarrow> string \<Rightarrow> app \<Rightarrow> app" where
  "addLog subscriptions now subId message' actor' ap =
     (case find (\<lambda>s. doc_id s = Some subId) subscriptions of
        None \<Rightarrow> ap
      | Some sub \<Rightarrow>
          (let newLog = \<lparr>date = now, message = message', actor = actor'\<rparr>
           in case updateDoc subId
                     (\<lambda>data. data\<lparr>communicationLog := communicationLog sub @ [newLog]\<rparr>)
                     (docs ap) of
                None \<Rightarrow> ap\<lparr>error := Some ''Failed to add log entry.''\<rparr>
              | Some ds \<Rightarrow> ap\<lparr>docs := ds\<rparr>))"

definition newFulfillments ::
  "subscription \<Rightarrow> fulfillment \<Rightarrow> string \<Rightarrow> string option \<Rightarrow> fulfillment list" where
  "newFulfillments sub fulfillmentToUpdate newStatus tracking' =
     map (\<lambda>f. if getTime (fulfillmentDate f) = getTime (fulfillmentDate fulfillmentToUpdate)
               then f\<lparr>fulfillment.status := newStatus,
                      tracking := (if tracking' \<noteq> None then tracking' else tracking f)\<rparr>
               else f)
         (fulfillments sub)"

text \<open>The template literals; a \<^verbatim>\<open>null\<close> tracking value prints as \<^verbatim>\<open>null\<close>.\<close>

definition logMessage :: "fulfillment \<Rightarrow> string \<Rightarrow> string option \<Rightarrow> string" where
  "logMessage fulfillmentToUpdate newStatus tracking' =
     (if newStatus = ''Shipped''
      then ''Marked fulfillment for ''
             @ formatDate (Some (fulfillmentDate fulfillmentToUpdate))
             @ '' as Shipped. Tracking: ''
             @ (case tracking' of None \<Rightarrow> ''null'' | Some t \<Rightarrow> t)
      else ''Updated fulfillment for ''
             @ formatDate (Some (fulfillmentDate fulfillmentToUpdate))
             @ '' to status: '' @ newStatus @ ''.'')"

definition updateFulfillment ::
  "subscription list \<Rightarrow> jsdate \<Rightarrow> string \<Rightarrow> fulfillment \<Rightarrow> string \<Rightarrow> string option \<Rightarrow> app \<Rightarrow> app" where
  "updateFulfillment subscriptions now subId fulfillmentToUpdate newStatus tracking' ap =
     (case find (\<lambda>s. doc_id s = Some subId) subscriptions of
        None \<Rightarrow> ap
      | Some sub \<Rightarrow>
          (let ap1 = addLog subscriptions now subId
                       (logMessage fulfillmentToUpdate newStatus tracking')
                       (if newStatus = ''Shipped'' then ''Pharmacy Staff'' else ''System'') ap
           in case updateDoc subId
                     (\<lambda>data. data\<lparr>fulfillments :=
                                    newFulfillments sub fulfillmentToUpdate newStatus tracking'\<rparr>)
                     (docs ap1) of
                None \<Rightarrow> ap1\<lparr>error := Some ''Failed to update fulfillment status.''\<rparr>
              | Some ds \<Rightarrow> ap1\<lparr>docs := ds\<rparr>))"

text \<open>One transition against a store whose last snapshot the component has processed.\<close>

definition applyTransition ::
  "jsdate \<Rightarrow> string \<Rightarrow> fulfillment \<Rightarrow> string \<Rightarrow> string option \<Rightarrow> app \<Rightarrow> app" where
  "applyTransition now subId fulfillmentToUpdate newStatus tracking' ap =
     updateFulfillment (onSnapshot (docs ap)) now subId fulfillmentToUpdate newStatus tracking' ap"

subsection \<open>Ordering for display\<close>

definition getNextActionableDate :: "subscription \<Rightarrow> jsdate option" where
  "getNextActionableDate sub =
     (case find (\<lambda>f. fulfillment.status f \<noteq> ''Shipped'') (fulfillments sub) of
        None \<Rightarrow> None
      | Some nextActionable \<Rightarrow> Some (fulfillmentDate nextActionable))"

text \<open>The comparison function handed to \<^verbatim>\<open>sort\<close>. A date object is truthy, so \<^verbatim>\<open>!dateA\<close>
  holds exactly for \<^verbatim>\<open>null\<close>; the difference of two dates is that of their time values.\<close>

definition compareSubscriptions :: "subscription \<Rightarrow> subscription \<Rightarrow> int" where
  "compareSubscriptions a b =
     (if subscription.status a = ''Action Required'' \<and> subscription.status b \<noteq> ''Action Required''
      then - 1
      else if subscription.status b = ''Action Required''
                \<and> subscription.status a \<noteq> ''Action Required''
      then 1
      else (let dateA = getNextActionableDate a; dateB = getNextActionableDate b
            in case dateA of
                 None \<Rightarrow> 1
               | Some da \<Rightarrow> (case dateB of None \<Rightarrow> - 1 | Some db \<Rightarrow> getTime da - getTime db)))"

text \<open>
  \<^verbatim>\<open>Array.prototype.sort\<close> belongs to the JavaScript engine. ECMAScript requires a
  stable result when the comparison function is consistent, and leaves the order to the
  implementation when it is not. The engine is therefore a parameter of
  \<open>sortedSubscriptions\<close>, and two engines are given: both sort by insertion, moving each
  new element \<open>x\<close> towards the front past the elements \<open>y\<close> already placed. They differ
  in the call that decides a move: \<open>comparefn(x, y) < 0\<close> in the first, and
  \<open>comparefn(y, x) > 0\<close> in the second. The prefix already sorted is kept last element
  first.
\<close>

fun insertBackwards :: "('a \<Rightarrow> 'a \<Rightarrow> bool) \<Rightarrow> 'a \<Rightarrow> 'a list \<Rightarrow> 'a list" where
  "insertBackwards goesBefore x [] = [x]"
| "insertBackwards goesBefore x (y # ys) =
     (if goesBefore x y then y # insertBackwards goesBefore x ys else x # y # ys)"

definition insertionSort :: "('a \<Rightarrow> 'a \<Rightarrow> bool) \<Rightarrow> 'a list \<Rightarrow> 'a list" where
  "insertionSort goesBefore xs =
     rev (foldl (\<lambda>placed x. insertBackwards goesBefore x placed) [] xs)"

definition sortNewFirst :: "('a \<Rightarrow> 'a \<Rightarrow> int) \<Rightarrow> 'a list \<Rightarrow> 'a list" where
  "sortNewFirst comparefn = insertionSort (\<lambda>x y. comparefn x y < 0)"

definition sortOldFirst :: "('a \<Rightarrow> 'a \<Rightarrow> int) \<Rightarrow> 'a list \<Rightarrow> 'a list" where
  "sortOldFirst comparefn = insertionSort (\<lambda>x y. comparefn y x > 0)"

definition sortedSubscriptions ::
  "((subscription \<Rightarrow> subscription \<Rightarrow> int) \<Rightarrow> subscription list \<Rightarrow> subscription list)
     \<Rightarrow> subscription list \<Rightarrow> subscription list" where
  "sortedSubscriptions arraySort subscriptions = arraySort compareSubscriptions subscriptions"

text \<open>
  What an engine is held to. \<open>compareSubscriptions\<close> is not a consistent comparison
  function when two subscriptions have no next actionable date, so ECMAScript itself
  promises no order for such a list. The contract below is the part of sortedness that
  needs no consistency: the result \<open>ys\<close> is a rearrangement of the input \<open>xs\<close>, and
  for no element \<open>a\<close> placed before an element \<open>b\<close> does the comparison function say
  in both argument orders that \<open>a\<close> belongs after \<open>b\<close> (\<open>comparefn(a, b) > 0\<close> and
  \<open>comparefn(b, a) < 0\<close>). A result that is sorted in ECMAScript's sense
  (\<open>comparefn(a, b) \<le> 0\<close> for \<open>a\<close> before \<open>b\<close>) meets it.
\<close>

definition respectsComparator :: "('a \<Rightarrow> 'a \<Rightarrow> int) \<Rightarrow> 'a list \<Rightarrow> 'a list \<Rightarrow> bool" where
  "respectsComparator comparefn xs ys =
     (mset ys = mset xs
      \<and> sorted_wrt (\<lambda>a b. \<not> (comparefn a b > 0 \<and> comparefn b a < 0)) ys)"

subsection \<open>The display order in the specification's words\<close>


subsection \<open>Sample data\<close>

text \<open>Concrete dates, fulfillments and subscriptions on which the theorems below are
  evaluated.\<close>

definition sampleDate :: "nat \<Rightarrow> nat \<Rightarrow> nat \<Rightarrow> jsdate" where
  "sampleDate y m d = \<lparr>fullYear = y, monthIndex = m, dayOfMonth = d, timeInDay = 0\<rparr>"

definition sampleFulfillment :: "jsdate \<Rightarrow> string \<Rightarrow> fulfillment" where
  "sampleFulfillment d s = \<lparr>fulfillmentDate = d, status = s, tracking = None, rxId = None\<rparr>"

definition sampleSubscription :: "string \<Rightarrow> string \<Rightarrow> fulfillment list \<Rightarrow> subscription" where
  "sampleSubscription name st fs =
     \<lparr>doc_id = None, patientName = name, drugName = ''Lisinopril 10mg'',
      newRxCall = False, duration = int (length fs), status = st,
      physicianStatus = ''Pending'', startDate = sampleDate 2024 0 1,
      fulfillments = fs, communicationLog = []\<rparr>"

definition sampleForm :: "int \<Rightarrow> formData" where
  "sampleForm n =
     \<lparr>form_patientName = ''Patient-1000'', form_drugName = ''Lisinopril 10mg'',
      form_newRxCall = False, form_duration = n, form_status = ''Pending'',
      form_physicianStatus = ''Pending'', form_startDate = ''1/1/2024''\<rparr>"

text \<open>A store with one subscription of three months as the creation form leaves it, and
  one with two fulfillments of the same date.\<close>

definition sampleThree :: subscription where
  "sampleThree =
     sampleSubscription ''Patient-1000'' ''Pending''
       [sampleFulfillment (sampleDate 2024 0 1) ''RX Received'',
        sampleFulfillment (sampleDate 2024 1 1) ''Scheduled'',
        sampleFulfillment (sampleDate 2024 2 1) ''Scheduled'']"

definition sampleTwin :: subscription where
  "sampleTwin =
     sampleSubscription ''Patient-2000'' ''Pending''
       [sampleFulfillment (sampleDate 2024 0 1) ''RX Received'',
        sampleFulfillment (sampleDate 2024 0 1) ''Scheduled'',
        sampleFulfillment (sampleDate 2024 1 1) ''Scheduled'']"

definition sampleApp :: app where
  "sampleApp = \<lparr>docs = [(''sub1'', sampleThree), (''sub2'', sampleTwin)], error = None\<rparr>"

text \<open>A subscription whose only fulfillment has been shipped.\<close>

definition sampleDone :: "string \<Rightarrow> subscription" where
  "sampleDone name =
     sampleSubscription name ''Pending'' [sampleFulfillment (sampleDate 2024 0 1) ''Shipped'']"



section \<open>Theorems\<close>

subsection \<open>The calendar\<close>

text \<open>One more year is 365 days more, 366 after a leap year.\<close>

lemma div_step:
  "0 < k \<Longrightarrow> (n + k) div k = (n + (k - 1)) div k + (if n mod k = 0 then 1 else 0)" for n k :: nat
proof -
  assume k: "0 < k"
  have "n + k = Suc (n + (k - 1))" using k by simp
  then have "(n + k) div k = (if Suc (n + (k - 1)) mod k = 0 then Suc ((n + (k - 1)) div k) else (n + (k - 1)) div k)"
    by (simp only: div_Suc)
  moreover have "Suc (n + (k - 1)) mod k = n mod k" using k by simp
  ultimately show ?thesis by simp
qed

lemma shifted_div:
  "(int y - 1969) div 4 = int ((y + 3) div 4) - 493"
  "(int y - 1901) div 100 = int ((y + 99) div 100) - 20"
  "(int y - 1601) div 400 = int ((y + 399) div 400) - 5"
proof -
  have "int y - 1969 = int (y + 3) + (- 493) * 4" by simp
  then have "(int y - 1969) div 4 = (int (y + 3) + (- 493) * 4) div 4" by simp
  also have "\<dots> = - 493 + int (y + 3) div 4" by (rule div_mult_self1) simp
  finally show "(int y - 1969) div 4 = int ((y + 3) div 4) - 493" by (simp add: zdiv_int)
  have "int y - 1901 = int (y + 99) + (- 20) * 100" by simp
  then have "(int y - 1901) div 100 = (int (y + 99) + (- 20) * 100) div 100" by simp
  also have "\<dots> = - 20 + int (y + 99) div 100" by (rule div_mult_self1) simp
  finally show "(int y - 1901) div 100 = int ((y + 99) div 100) - 20" by (simp add: zdiv_int)
  have "int y - 1601 = int (y + 399) + (- 5) * 400" by simp
  then have "(int y - 1601) div 400 = (int (y + 399) + (- 5) * 400) div 400" by simp
  also have "\<dots> = - 5 + int (y + 399) div 400" by (rule div_mult_self1) simp
  finally show "(int y - 1601) div 400 = int ((y + 399) div 400) - 5" by (simp add: zdiv_int)
qed

lemma dayFromYear_Suc:
  "dayFromYear (Suc y) = dayFromYear y + 365 + (if inLeapYear y then 1 else 0)"
proof -
  have a: "(Suc y + 3) div 4 = (y + 3) div 4 + (if y mod 4 = 0 then 1 else 0)"
    using div_step [of 4 y] by simp
  have b: "(Suc y + 99) div 100 = (y + 99) div 100 + (if y mod 100 = 0 then 1 else 0)"
    using div_step [of 100 y] by simp
  have c: "(Suc y + 399) div 400 = (y + 399) div 400 + (if y mod 400 = 0 then 1 else 0)"
    using div_step [of 400 y] by simp
  have "y mod 4 = y mod 100 mod 4" "y mod 100 = y mod 400 mod 100"
    by (simp_all add: mod_mod_cancel)
  then have m100: "y mod 100 = 0 \<Longrightarrow> y mod 4 = 0"
    and m400: "y mod 400 = 0 \<Longrightarrow> y mod 100 = 0"
    by simp_all
  show ?thesis
    unfolding dayFromYear_def shifted_div a b c inLeapYear_def
    using m100 m400 by auto
qed


text \<open>
  \<open>setMonth\<close> agrees with ECMAScript, which sets the time value to
  \<^verbatim>\<open>MakeDate(MakeDay(year, month, date), time)\<close>: rolling a day over into the next month
  keeps the day number, and the fields that result are those of a calendar date.
\<close>

lemma days_of_year:
  "(\<Sum>k \<leftarrow> [0..<12]. daysInMonth y k) = 365 + (if inLeapYear y then 1 else 0)"
proof -
  have "[0..<12] = [0, 1, 2, 3, 4, 5, 6, 7, 8, 9, 10, 11 :: nat]"
    by (simp add: upt_rec)
  then show ?thesis by (simp add: daysInMonth_def)
qed

lemma makeDay_next_month:
  assumes "m < 11"
  shows "makeDay y (Suc m) d = makeDay y m d + int (daysInMonth y m)"
  using assms by (simp add: makeDay_def)

lemma makeDay_next_year:
  "makeDay (Suc y) 0 d = makeDay y 11 d + int (daysInMonth y 11)"
proof -
  have "(\<Sum>k \<leftarrow> [0..<12]. daysInMonth y k) = (\<Sum>k \<leftarrow> [0..<11]. daysInMonth y k) + daysInMonth y 11"
  proof -
    have "[0..<12] = [0..<11] @ [11 :: nat]"
      using upt_Suc_append [of 0 11] by simp
    then show ?thesis by simp
  qed
  then have "(\<Sum>k \<leftarrow> [0..<11]. daysInMonth y k) + daysInMonth y 11
      = 365 + (if inLeapYear y then 1 else 0)"
    using days_of_year [of y] by simp
  then have "int ((\<Sum>k \<leftarrow> [0..<11]. daysInMonth y k) + daysInMonth y 11)
      = int (365 + (if inLeapYear y then 1 else 0))"
    by (simp only:)
  then have "int (\<Sum>k \<leftarrow> [0..<11]. daysInMonth y k) + int (daysInMonth y 11)
      = 365 + (if inLeapYear y then 1 else 0)"
    by (cases "inLeapYear y") simp_all
  then show ?thesis
    by (simp add: makeDay_def dayFromYear_Suc)
qed

lemma makeDay_rollOver:
  "m < 12 \<Longrightarrow> rollOver y m d = (y', m', d')
   \<Longrightarrow> makeDay y' m' d' = makeDay y m d \<and> m' < 12 \<and> d' \<le> daysInMonth y' m'"
proof (induction y m d rule: rollOver.induct)
  case (1 y m d)
  show ?case
  proof (cases "d \<le> daysInMonth y m")
    case True
    with "1.prems" show ?thesis by (simp add: rollOver.simps [of y m d])
  next
    case over: False
    show ?thesis
    proof (cases "m = 11")
      case True
      have "rollOver y m d = rollOver (Suc y) 0 (d - daysInMonth y m)"
        using over True by (subst rollOver.simps) simp
      with "1.prems" have r: "rollOver (Suc y) 0 (d - daysInMonth y m) = (y', m', d')"
        by simp
      have "makeDay y' m' d' = makeDay (Suc y) 0 (d - daysInMonth y m) \<and> m' < 12
          \<and> d' \<le> daysInMonth y' m'"
        using "1.IH"(1) [OF over True _ r] by simp
      moreover have "makeDay (Suc y) 0 (d - daysInMonth y m) = makeDay y m d"
        using over True by (simp add: makeDay_next_year) (simp add: makeDay_def)
      ultimately show ?thesis by simp
    next
      case False
      with "1.prems" have m: "m < 11" by simp
      have "rollOver y m d = rollOver y (Suc m) (d - daysInMonth y m)"
        using over False by (subst rollOver.simps) simp
      with "1.prems" have r: "rollOver y (Suc m) (d - daysInMonth y m) = (y', m', d')"
        by simp
      have "makeDay y' m' d' = makeDay y (Suc m) (d - daysInMonth y m) \<and> m' < 12
          \<and> d' \<le> daysInMonth y' m'"
        using "1.IH"(2) [OF over False _ r] m by simp
      moreover have "makeDay y (Suc m) (d - daysInMonth y m) = makeDay y m d"
        using over m by (simp add: makeDay_next_month) (simp add: makeDay_def)
      ultimately show ?thesis by simp
    qed
  qed
qed

lemma makeDay_carry: "makeDay (y + m div 12) (m mod 12) d = makeDay y m d"
  by (simp add: makeDay_def)

lemma getTime_setMonth:
  "getTime (setMonth dt m)
     = makeDay (fullYear dt) m (dayOfMonth dt) * 86400000 + int (timeInDay dt)"
proof -
  obtain y' m' d' where r: "rollOver (fullYear dt + m div 12) (m mod 12) (dayOfMonth dt) = (y', m', d')"
    by (metis prod_cases3)
  have "m mod 12 < 12" by simp
  then have "makeDay y' m' d' = makeDay (fullYear dt + m div 12) (m mod 12) (dayOfMonth dt)"
    using r makeDay_rollOver by blast
  then show ?thesis
    by (simp add: getTime_def setMonth_def r makeDay_carry)
qed

subsection \<open>Status derivation\<close>

text \<open>
  C1. The derived status follows the priority order: a stored status 'On Hold' stays
  'On Hold' whatever the fulfillments are; otherwise 'Fulfilled' when every fulfillment
  is 'Shipped'; otherwise 'Action Required' when some fulfillment is 'RX Received';
  otherwise 'Active'.
\<close>

theorem overallStatus_priority:
  "(subscription.status sub = ''On Hold'' \<longrightarrow> overallStatus sub = ''On Hold'')
   \<and> (subscription.status sub \<noteq> ''On Hold''
        \<and> (\<forall>f \<in> set (fulfillments sub). fulfillment.status f = ''Shipped'')
      \<longrightarrow> overallStatus sub = ''Fulfilled'')
   \<and> (subscription.status sub \<noteq> ''On Hold''
        \<and> \<not> (\<forall>f \<in> set (fulfillments sub). fulfillment.status f = ''Shipped'')
        \<and> (\<exists>f \<in> set (fulfillments sub). fulfillment.status f = ''RX Received'')
      \<longrightarrow> overallStatus sub = ''Action Required'')
   \<and> (subscription.status sub \<noteq> ''On Hold''
        \<and> \<not> (\<forall>f \<in> set (fulfillments sub). fulfillment.status f = ''Shipped'')
        \<and> \<not> (\<exists>f \<in> set (fulfillments sub). fulfillment.status f = ''RX Received'')
      \<longrightarrow> overallStatus sub = ''Active'')"
  by (simp add: overallStatus_def Let_def list_all_iff list_ex_iff)

theorem overallStatus_priority_witness:
  "overallStatus (sampleSubscription ''A'' ''On Hold'' [sampleFulfillment (sampleDate 2024 0 1) ''RX Received'']) = ''On Hold''
   \<and> overallStatus (sampleSubscription ''A'' ''Pending'' [sampleFulfillment (sampleDate 2024 0 1) ''Shipped'']) = ''Fulfilled''
   \<and> overallStatus (sampleSubscription ''A'' ''Pending'' [sampleFulfillment (sampleDate 2024 0 1) ''Shipped'', sampleFulfillment (sampleDate 2024 1 1) ''RX Received'']) = ''Action Required''
   \<and> overallStatus (sampleSubscription ''A'' ''Pending'' [sampleFulfillment (sampleDate 2024 0 1) ''Shipped'', sampleFulfillment (sampleDate 2024 1 1) ''Scheduled'']) = ''Active''"
  using overallStatus_priority [of "sampleSubscription ''A'' ''On Hold'' [sampleFulfillment (sampleDate 2024 0 1) ''RX Received'']"]
        overallStatus_priority [of "sampleSubscription ''A'' ''Pending'' [sampleFulfillment (sampleDate 2024 0 1) ''Shipped'']"]
        overallStatus_priority [of "sampleSubscription ''A'' ''Pending'' [sampleFulfillment (sampleDate 2024 0 1) ''Shipped'', sampleFulfillment (sampleDate 2024 1 1) ''RX Received'']"]
        overallStatus_priority [of "sampleSubscription ''A'' ''Pending'' [sampleFulfillment (sampleDate 2024 0 1) ''Shipped'', sampleFulfillment (sampleDate 2024 1 1) ''Scheduled'']"]
  by (simp add: sampleSubscription_def sampleFulfillment_def)

text \<open>
  C9. A subscription with no fulfillments whose stored status is not 'On Hold' derives
  'Fulfilled': the test that every fulfillment is 'Shipped' holds of the empty list.
\<close>

theorem empty_fulfillments_Fulfilled:
  "fulfillments sub = [] \<Longrightarrow> subscription.status sub \<noteq> ''On Hold''
   \<Longrightarrow> overallStatus sub = ''Fulfilled''
       \<and> updatedSubs [sub] = [sub\<lparr>subscription.status := ''Fulfilled''\<rparr>]"
  by (simp add: overallStatus_def updatedSubs_def)

theorem empty_fulfillments_Fulfilled_witness:
  "fulfillments (sampleSubscription ''A'' ''Pending'' []) = []
   \<and> subscription.status (sampleSubscription ''A'' ''Pending'' []) \<noteq> ''On Hold''
   \<and> overallStatus (sampleSubscription ''A'' ''Pending'' []) = ''Fulfilled''
   \<and> updatedSubs [sampleSubscription ''A'' ''Pending'' []]
       = [(sampleSubscription ''A'' ''Pending'' [])\<lparr>subscription.status := ''Fulfilled''\<rparr>]"
  using empty_fulfillments_Fulfilled [of "sampleSubscription ''A'' ''Pending'' []"]
  by (simp add: sampleSubscription_def)

subsection \<open>The effect of a transition on the store\<close>

text \<open>The component's subscription with a given id is the store's document of that id,
  with the id put in and the status derived.\<close>

lemma overallStatus_doc_id [simp]: "overallStatus (data\<lparr>doc_id := x\<rparr>) = overallStatus data"
  by (simp add: overallStatus_def)

lemma find_onSnapshot:
  "plainData ds \<Longrightarrow>
   find (\<lambda>s. doc_id s = Some subId) (onSnapshot ds)
     = map_option (\<lambda>data. data\<lparr>doc_id := Some subId, subscription.status := overallStatus data\<rparr>)
         (map_of ds subId)"
  by (induction ds) (auto simp: plainData_def onSnapshot_def updatedSubs_def)

lemma plainData_patch:
  "plainData ds \<Longrightarrow> (\<And>d. doc_id (p d) = doc_id d)
   \<Longrightarrow> plainData (map (\<lambda>(i, data). if i = k then (i, p data) else (i, data)) ds)"
  by (auto simp: plainData_def list_all_iff split: if_splits)

lemma newFulfillments_cong [simp]:
  "newFulfillments (data\<lparr>doc_id := x, subscription.status := y\<rparr>) f ns tr = newFulfillments data f ns tr"
  by (simp add: newFulfillments_def)

lemma map_of_in_keys: "map_of ds k = Some v \<Longrightarrow> k \<in> fst ` set ds"
  by (metis domI dom_map_of_conv_image_fst)

lemma map_of_patch:
  "map_of (map (\<lambda>(i, data). if i = k then (i, p data) else (i, data)) ds) k'
     = (if k' = k then map_option p (map_of ds k) else map_of ds k')"
  by (induction ds) auto

lemma addLog_found:
  "plainData (docs ap) \<Longrightarrow> map_of (docs ap) subId = Some data \<Longrightarrow>
   addLog (onSnapshot (docs ap)) now subId m a ap
     = ap\<lparr>docs := map (\<lambda>(i, d). if i = subId
                 then (i, d\<lparr>communicationLog := communicationLog data @ [\<lparr>date = now, message = m, actor = a\<rparr>]\<rparr>)
                 else (i, d)) (docs ap)\<rparr>"
  by (simp add: addLog_def find_onSnapshot updateDoc_def map_of_in_keys Let_def)

lemma addLog_missing:
  "plainData (docs ap) \<Longrightarrow> map_of (docs ap) subId = None
   \<Longrightarrow> addLog (onSnapshot (docs ap)) now subId m a ap = ap"
  by (simp add: addLog_def find_onSnapshot)

lemma keys_patch:
  "map fst (map (\<lambda>(i, data). if i = k then (i, p data) else (i, data)) ds) = map fst ds"
  by (induction ds) auto

lemma patch_patch:
  "map (\<lambda>(i, data). if i = k then (i, q data) else (i, data))
     (map (\<lambda>(i, data). if i = k then (i, p data) else (i, data)) ds)
   = map (\<lambda>(i, data). if i = k then (i, q (p data)) else (i, data)) ds"
  by (induction ds) auto

lemma updateDoc_found:
  "k \<in> fst ` set ds \<Longrightarrow>
   updateDoc k p ds = Some (map (\<lambda>(i, data). if i = k then (i, p data) else (i, data)) ds)"
  by (simp add: updateDoc_def)

lemma applyTransition_found:
  assumes plain: "plainData (docs ap)" and found: "map_of (docs ap) subId = Some data"
  shows "applyTransition now subId f ns tr ap
     = ap\<lparr>docs := map (\<lambda>(i, d). if i = subId
                 then (i, d\<lparr>communicationLog := communicationLog data
                              @ [\<lparr>date = now, message = logMessage f ns tr,
                                  actor = (if ns = ''Shipped'' then ''Pharmacy Staff'' else ''System'')\<rparr>],
                            fulfillments := newFulfillments data f ns tr\<rparr>)
                 else (i, d)) (docs ap)\<rparr>"
proof -
  let ?a = "if ns = ''Shipped'' then ''Pharmacy Staff'' else ''System''"
  let ?p = "\<lambda>d. d\<lparr>communicationLog := communicationLog data
                     @ [\<lparr>date = now, message = logMessage f ns tr, actor = ?a\<rparr>]\<rparr>"
  let ?ds1 = "map (\<lambda>(i, d). if i = subId then (i, ?p d) else (i, d)) (docs ap)"
  have k: "subId \<in> fst ` set (docs ap)"
    using found by (rule map_of_in_keys)
  have k1: "subId \<in> fst ` set ?ds1"
    using k keys_patch [of subId ?p "docs ap"] by (metis list.set_map)
  have log: "addLog (onSnapshot (docs ap)) now subId (logMessage f ns tr) ?a ap = ap\<lparr>docs := ?ds1\<rparr>"
    using plain found by (rule addLog_found)
  show ?thesis
    unfolding applyTransition_def updateFulfillment_def
    by (simp add: find_onSnapshot plain found log Let_def updateDoc_found [OF k1] patch_patch
        del: map_map)
qed

lemma applyTransition_missing:
  "plainData (docs ap) \<Longrightarrow> map_of (docs ap) subId = None
   \<Longrightarrow> applyTransition now subId f ns tr ap = ap"
  by (simp add: applyTransition_def updateFulfillment_def find_onSnapshot)

subsection \<open>Fulfillment transitions\<close>

text \<open>
  The transitions are stated for a subscription that is in the store, on a store whose
  data carries no id of its own. The document of the subscription after a transition
  has one log entry more, and its fulfillments are mapped.
\<close>

lemma applyTransition_doc:
  assumes "plainData (docs ap)" and "map_of (docs ap) subId = Some data"
  shows "map_of (docs (applyTransition now subId f ns tr ap)) subId
     = Some (data\<lparr>communicationLog := communicationLog data
                              @ [\<lparr>date = now, message = logMessage f ns tr,
                                  actor = (if ns = ''Shipped'' then ''Pharmacy Staff'' else ''System'')\<rparr>],
                            fulfillments := newFulfillments data f ns tr\<rparr>)"
  by (simp add: applyTransition_found [OF assms] map_of_patch assms)

lemma applyTransition_error:
  assumes "plainData (docs ap)"
  shows "error (applyTransition now subId f ns tr ap) = error ap"
proof (cases "map_of (docs ap) subId")
  case None
  with assms show ?thesis by (simp add: applyTransition_missing)
next
  case (Some data)
  with assms show ?thesis by (simp add: applyTransition_found)
qed

lemma plainData_applyTransition:
  assumes "plainData (docs ap)"
  shows "plainData (docs (applyTransition now subId f ns tr ap))"
proof (cases "map_of (docs ap) subId")
  case None
  with assms show ?thesis by (simp add: applyTransition_missing)
next
  case (Some data)
  with assms show ?thesis
    by (simp add: applyTransition_found plainData_patch)
qed

lemma length_newFulfillments [simp]:
  "length (newFulfillments data f ns tr) = length (fulfillments data)"
  by (simp add: newFulfillments_def)

lemma nth_newFulfillments:
  "i < length (fulfillments data) \<Longrightarrow>
   newFulfillments data f ns tr ! i =
     (if getTime (fulfillmentDate (fulfillments data ! i)) = getTime (fulfillmentDate f)
      then (fulfillments data ! i)\<lparr>fulfillment.status := ns,
              tracking := (if tr \<noteq> None then tr else tracking (fulfillments data ! i))\<rparr>
      else fulfillments data ! i)"
  by (simp add: newFulfillments_def)

lemma newFulfillments_twice:
  "newFulfillments (data\<lparr>communicationLog := l, fulfillments := newFulfillments data f ns tr\<rparr>) f ns tr
     = newFulfillments data f ns tr"
  by (simp add: newFulfillments_def)

text \<open>
  C2. When the key's date is that of a fulfillment of the subscription, the transition
  sets that fulfillment's status to the new status and its tracking value to the supplied
  one, keeping the old tracking value when none is supplied (date and prescription id are
  kept). Applying the same transition once more leaves the fulfillments as they are.
\<close>

theorem applyTransition_updates_matching:
  assumes "plainData (docs ap)"
    and "map_of (docs ap) subId = Some data"
    and "i < length (fulfillments data)"
    and "getTime (fulfillmentDate (fulfillments data ! i)) = getTime (fulfillmentDate key)"
  shows "\<exists>data'. map_of (docs (applyTransition now subId key newStatus tr ap)) subId = Some data'
      \<and> length (fulfillments data') = length (fulfillments data)
      \<and> fulfillment.status (fulfillments data' ! i) = newStatus
      \<and> tracking (fulfillments data' ! i)
          = (case tr of Some t \<Rightarrow> Some t | None \<Rightarrow> tracking (fulfillments data ! i))
      \<and> fulfillmentDate (fulfillments data' ! i) = fulfillmentDate (fulfillments data ! i)
      \<and> rxId (fulfillments data' ! i) = rxId (fulfillments data ! i)
      \<and> (\<exists>data''. map_of (docs (applyTransition now' subId key newStatus tr
                                    (applyTransition now subId key newStatus tr ap))) subId
                      = Some data''
            \<and> fulfillments data'' = fulfillments data')"
proof -
  let ?ap1 = "applyTransition now subId key newStatus tr ap"
  let ?d1 = "data\<lparr>communicationLog := communicationLog data
                 @ [\<lparr>date = now, message = logMessage key newStatus tr,
                     actor = (if newStatus = ''Shipped'' then ''Pharmacy Staff'' else ''System'')\<rparr>],
               fulfillments := newFulfillments data key newStatus tr\<rparr>"
  have d1: "map_of (docs ?ap1) subId = Some ?d1"
    using assms(1,2) by (rule applyTransition_doc)
  have plain1: "plainData (docs ?ap1)"
    using assms(1) by (rule plainData_applyTransition)
  have d2: "map_of (docs (applyTransition now' subId key newStatus tr ?ap1)) subId
      = Some (?d1\<lparr>communicationLog := communicationLog ?d1
                 @ [\<lparr>date = now', message = logMessage key newStatus tr,
                     actor = (if newStatus = ''Shipped'' then ''Pharmacy Staff'' else ''System'')\<rparr>],
               fulfillments := newFulfillments ?d1 key newStatus tr\<rparr>)"
    using plain1 d1 by (rule applyTransition_doc)
  have again: "newFulfillments ?d1 key newStatus tr = newFulfillments data key newStatus tr"
    by (rule newFulfillments_twice)
  have nth: "newFulfillments data key newStatus tr ! i
      = (fulfillments data ! i)\<lparr>fulfillment.status := newStatus,
              tracking := (if tr \<noteq> None then tr else tracking (fulfillments data ! i))\<rparr>"
    using assms(3,4) by (simp add: nth_newFulfillments)
  show ?thesis
    using nth unfolding d1 d2 again
    by (cases tr) simp_all
qed


text \<open>When no fulfillment has the key's date the map changes nothing.\<close>

lemma newFulfillments_no_match:
  "\<forall>f \<in> set (fulfillments data). getTime (fulfillmentDate f) \<noteq> getTime (fulfillmentDate key)
   \<Longrightarrow> newFulfillments data key ns tr = fulfillments data"
  by (simp add: newFulfillments_def map_idI)

text \<open>
  C4 (amended). A transition whose key matches no fulfillment raises no error and leaves
  every field of the subscription but the communication log as it was; the log still
  receives the one entry of the transition.
\<close>

theorem applyTransition_unknown_key:
  assumes "plainData (docs ap)"
    and "map_of (docs ap) subId = Some data"
    and "\<forall>f \<in> set (fulfillments data). getTime (fulfillmentDate f) \<noteq> getTime (fulfillmentDate key)"
  shows "\<exists>entry. map_of (docs (applyTransition now subId key newStatus tr ap)) subId
             = Some (data\<lparr>communicationLog := communicationLog data @ [entry]\<rparr>)
          \<and> date entry = now
          \<and> error (applyTransition now subId key newStatus tr ap) = error ap"
  unfolding applyTransition_doc [OF assms(1,2)] applyTransition_error [OF assms(1)]
    newFulfillments_no_match [OF assms(3)]
  by (intro exI [of _ "\<lparr>date = now, message = logMessage key newStatus tr,
        actor = (if newStatus = ''Shipped'' then ''Pharmacy Staff'' else ''System'')\<rparr>"]) simp

text \<open>
  C10. Every fulfillment whose date equals the key's date receives the new status (and
  the tracking value), however many there are; the others are left as they were.
\<close>

theorem applyTransition_updates_every_match:
  assumes "plainData (docs ap)" and "map_of (docs ap) subId = Some data"
  shows "\<exists>data'. map_of (docs (applyTransition now subId key newStatus tr ap)) subId = Some data'
      \<and> length (fulfillments data') = length (fulfillments data)
      \<and> (\<forall>i < length (fulfillments data).
            if getTime (fulfillmentDate (fulfillments data ! i)) = getTime (fulfillmentDate key)
            then fulfillment.status (fulfillments data' ! i) = newStatus
               \<and> tracking (fulfillments data' ! i)
                   = (if tr \<noteq> None then tr else tracking (fulfillments data ! i))
            else fulfillments data' ! i = fulfillments data ! i)"
  unfolding applyTransition_doc [OF assms]
  by (simp add: nth_newFulfillments)


subsection \<open>The transitions on the sample store\<close>

lemmas sample_defs = sampleApp_def sampleThree_def sampleTwin_def sampleSubscription_def
  sampleFulfillment_def sampleDate_def

lemmas date_defs = getTime_def makeDay_def dayFromYear_def daysInMonth_def inLeapYear_def

lemma plainData_sampleApp: "plainData (docs sampleApp)"
  by (simp add: plainData_def sample_defs)

theorem applyTransition_updates_matching_witness:
  "plainData (docs sampleApp)
   \<and> map_of (docs sampleApp) ''sub1'' = Some sampleThree
   \<and> 0 < length (fulfillments sampleThree)
   \<and> getTime (fulfillmentDate (fulfillments sampleThree ! 0))
       = getTime (fulfillmentDate (sampleFulfillment (sampleDate 2024 0 1) ''RX Received''))
   \<and> (\<exists>data'. map_of (docs (applyTransition (sampleDate 2024 0 5) ''sub1''
                    (sampleFulfillment (sampleDate 2024 0 1) ''RX Received'') ''Shipped''
                    (Some ''1Z999'') sampleApp)) ''sub1'' = Some data'
      \<and> length (fulfillments data') = 3
      \<and> fulfillment.status (fulfillments data' ! 0) = ''Shipped''
      \<and> tracking (fulfillments data' ! 0) = Some ''1Z999''
      \<and> (\<exists>data''. map_of (docs (applyTransition (sampleDate 2024 0 6) ''sub1''
                    (sampleFulfillment (sampleDate 2024 0 1) ''RX Received'') ''Shipped''
                    (Some ''1Z999'')
                    (applyTransition (sampleDate 2024 0 5) ''sub1''
                    (sampleFulfillment (sampleDate 2024 0 1) ''RX Received'') ''Shipped''
                    (Some ''1Z999'') sampleApp))) ''sub1'' = Some data''
            \<and> fulfillments data'' = fulfillments data'))"
proof -
  have h1: "map_of (docs sampleApp) ''sub1'' = Some sampleThree"
    by (simp add: sampleApp_def)
  have h2: "0 < length (fulfillments sampleThree)"
    by (simp add: sampleThree_def sampleSubscription_def)
  have h3: "getTime (fulfillmentDate (fulfillments sampleThree ! 0))
       = getTime (fulfillmentDate (sampleFulfillment (sampleDate 2024 0 1) ''RX Received''))"
    by (simp add: sampleThree_def sampleSubscription_def sampleFulfillment_def)
  have len: "length (fulfillments sampleThree) = 3"
    by (simp add: sampleThree_def sampleSubscription_def)
  show ?thesis
    using applyTransition_updates_matching [OF plainData_sampleApp h1 h2 h3, of "sampleDate 2024 0 5" "''Shipped''"
        "Some ''1Z999''" "sampleDate 2024 0 6"] plainData_sampleApp h1 h2 h3
    by (simp add: len) blast
qed

text \<open>
  C4 as stated fails: on the sample store, a transition keyed by 1 January 2025 matches
  none of the three fulfillments, and the subscription's document is not what it was; its
  log has gained an entry.
\<close>

theorem applyTransition_unknown_key_changes_log:
  "list_all (\<lambda>f. getTime (fulfillmentDate f) \<noteq> getTime (fulfillmentDate
        (sampleFulfillment (sampleDate 2025 0 1) ''Scheduled''))) (fulfillments sampleThree)
   \<and> map_of (docs sampleApp) ''sub1'' = Some sampleThree
   \<and> communicationLog sampleThree = []
   \<and> map_option communicationLog (map_of (docs (applyTransition (sampleDate 2024 0 5) ''sub1''
           (sampleFulfillment (sampleDate 2025 0 1) ''Scheduled'') ''Intake Sent'' None
           sampleApp)) ''sub1'')
       = Some [\<lparr>date = sampleDate 2024 0 5,
                 message = ''Updated fulfillment for 1/1/2025 to status: Intake Sent.'',
                 actor = ''System''\<rparr>]
   \<and> map_of (docs (applyTransition (sampleDate 2024 0 5) ''sub1''
           (sampleFulfillment (sampleDate 2025 0 1) ''Scheduled'') ''Intake Sent'' None
           sampleApp)) ''sub1''
       \<noteq> map_of (docs sampleApp) ''sub1''"
proof -
  have h1: "map_of (docs sampleApp) ''sub1'' = Some sampleThree"
    by (simp add: sampleApp_def)
  have dates: "list_all (\<lambda>f. getTime (fulfillmentDate f) \<noteq> getTime (fulfillmentDate
        (sampleFulfillment (sampleDate 2025 0 1) ''Scheduled''))) (fulfillments sampleThree)"
    by (simp add: sampleThree_def sampleSubscription_def sampleFulfillment_def sampleDate_def
        date_defs upt_rec)
  have log: "communicationLog sampleThree = []"
    by (simp add: sampleThree_def sampleSubscription_def)
  have msg: "logMessage (sampleFulfillment (sampleDate 2025 0 1) ''Scheduled'') ''Intake Sent'' None
      = ''Updated fulfillment for 1/1/2025 to status: Intake Sent.''"
    by code_simp
  have after: "map_option communicationLog (map_of (docs (applyTransition (sampleDate 2024 0 5) ''sub1''
           (sampleFulfillment (sampleDate 2025 0 1) ''Scheduled'') ''Intake Sent'' None
           sampleApp)) ''sub1'')
       = Some [\<lparr>date = sampleDate 2024 0 5,
                 message = logMessage (sampleFulfillment (sampleDate 2025 0 1) ''Scheduled'')
                             ''Intake Sent'' None,
                 actor = ''System''\<rparr>]"
    unfolding applyTransition_doc [OF plainData_sampleApp h1] by (simp add: log)
  have before: "map_option communicationLog (map_of (docs sampleApp) ''sub1'') = Some []"
    unfolding h1 by (simp add: log)
  have differ: "map_of (docs (applyTransition (sampleDate 2024 0 5) ''sub1''
           (sampleFulfillment (sampleDate 2025 0 1) ''Scheduled'') ''Intake Sent'' None
           sampleApp)) ''sub1''
       \<noteq> map_of (docs sampleApp) ''sub1''"
    using after before by auto
  show ?thesis
    using dates h1 log after [unfolded msg] differ by blast
qed



theorem applyTransition_unknown_key_witness:
  "plainData (docs sampleApp)
   \<and> map_of (docs sampleApp) ''sub1'' = Some sampleThree
   \<and> list_all (\<lambda>f. getTime (fulfillmentDate f) \<noteq> getTime (fulfillmentDate
        (sampleFulfillment (sampleDate 2025 0 1) ''Scheduled''))) (fulfillments sampleThree)
   \<and> (\<exists>entry. map_of (docs (applyTransition (sampleDate 2024 0 5) ''sub1''
           (sampleFulfillment (sampleDate 2025 0 1) ''Scheduled'') ''Intake Sent'' None
           sampleApp)) ''sub1''
             = Some (sampleThree\<lparr>communicationLog := communicationLog sampleThree @ [entry]\<rparr>)
          \<and> date entry = sampleDate 2024 0 5
          \<and> error (applyTransition (sampleDate 2024 0 5) ''sub1''
           (sampleFulfillment (sampleDate 2025 0 1) ''Scheduled'') ''Intake Sent'' None
           sampleApp) = error sampleApp)"
proof -
  have h1: "map_of (docs sampleApp) ''sub1'' = Some sampleThree"
    by (simp add: sampleApp_def)
  have dates: "list_all (\<lambda>f. getTime (fulfillmentDate f) \<noteq> getTime (fulfillmentDate
        (sampleFulfillment (sampleDate 2025 0 1) ''Scheduled''))) (fulfillments sampleThree)"
    by (simp add: sampleThree_def sampleSubscription_def sampleFulfillment_def sampleDate_def
        date_defs upt_rec)
  have h2: "\<forall>f \<in> set (fulfillments sampleThree). getTime (fulfillmentDate f) \<noteq> getTime (fulfillmentDate
        (sampleFulfillment (sampleDate 2025 0 1) ''Scheduled''))"
    using dates by (simp only: list_all_iff)
  show ?thesis
    using applyTransition_unknown_key [OF plainData_sampleApp h1 h2, of "sampleDate 2024 0 5" "''Intake Sent''" None]
      plainData_sampleApp h1 dates by blast
qed

theorem applyTransition_updates_every_match_witness:
  "plainData (docs sampleApp)
   \<and> map_of (docs sampleApp) ''sub2'' = Some sampleTwin
   \<and> (\<exists>data'. map_of (docs (applyTransition (sampleDate 2024 0 5) ''sub2''
                    (sampleFulfillment (sampleDate 2024 0 1) ''RX Received'') ''Shipped''
                    (Some ''1Z999'') sampleApp)) ''sub2'' = Some data'
      \<and> length (fulfillments data') = 3
      \<and> fulfillment.status (fulfillments data' ! 0) = ''Shipped''
      \<and> tracking (fulfillments data' ! 0) = Some ''1Z999''
      \<and> fulfillment.status (fulfillments data' ! 1) = ''Shipped''
      \<and> tracking (fulfillments data' ! 1) = Some ''1Z999''
      \<and> fulfillments data' ! 2 = sampleFulfillment (sampleDate 2024 1 1) ''Scheduled'')"
proof -
  have h1: "map_of (docs sampleApp) ''sub2'' = Some sampleTwin"
    by (simp add: sampleApp_def)
  have len: "length (fulfillments sampleTwin) = 3"
    by (simp add: sampleTwin_def sampleSubscription_def)
  have fs: "fulfillments sampleTwin ! 0 = sampleFulfillment (sampleDate 2024 0 1) ''RX Received''"
    "fulfillments sampleTwin ! 1 = sampleFulfillment (sampleDate 2024 0 1) ''Scheduled''"
    "fulfillments sampleTwin ! 2 = sampleFulfillment (sampleDate 2024 1 1) ''Scheduled''"
    by (simp_all add: sampleTwin_def sampleSubscription_def)
  have same: "fulfillmentDate (sampleFulfillment (sampleDate 2024 0 1) ''Scheduled'')
      = fulfillmentDate (sampleFulfillment (sampleDate 2024 0 1) ''RX Received'')"
    by (simp add: sampleFulfillment_def)
  have other: "getTime (fulfillmentDate (sampleFulfillment (sampleDate 2024 1 1) ''Scheduled''))
      \<noteq> getTime (fulfillmentDate (sampleFulfillment (sampleDate 2024 0 1) ''RX Received''))"
    by (simp add: sampleFulfillment_def sampleDate_def date_defs upt_rec)
  from applyTransition_updates_every_match [OF plainData_sampleApp h1, of "sampleDate 2024 0 5"
        "sampleFulfillment (sampleDate 2024 0 1) ''RX Received''" "''Shipped''" "Some ''1Z999''"]
  obtain data' where d: "map_of (docs (applyTransition (sampleDate 2024 0 5) ''sub2''
                    (sampleFulfillment (sampleDate 2024 0 1) ''RX Received'') ''Shipped''
                    (Some ''1Z999'') sampleApp)) ''sub2'' = Some data'"
    and l: "length (fulfillments data') = length (fulfillments sampleTwin)"
    and all: "\<forall>i < length (fulfillments sampleTwin).
            if getTime (fulfillmentDate (fulfillments sampleTwin ! i))
                 = getTime (fulfillmentDate (sampleFulfillment (sampleDate 2024 0 1) ''RX Received''))
            then fulfillment.status (fulfillments data' ! i) = ''Shipped''
               \<and> tracking (fulfillments data' ! i)
                   = (if Some ''1Z999'' \<noteq> None then Some ''1Z999''
                      else tracking (fulfillments sampleTwin ! i))
            else fulfillments data' ! i = fulfillments sampleTwin ! i"
    by blast
  have i0: "(0::nat) < length (fulfillments sampleTwin)"
    and i1: "(1::nat) < length (fulfillments sampleTwin)"
    and i2: "(2::nat) < length (fulfillments sampleTwin)"
    by (simp_all add: len)
  have r0: "fulfillment.status (fulfillments data' ! 0) = ''Shipped''
      \<and> tracking (fulfillments data' ! 0) = Some ''1Z999''"
    using all [rule_format, OF i0] by (simp add: fs)
  have r1: "fulfillment.status (fulfillments data' ! 1) = ''Shipped''
      \<and> tracking (fulfillments data' ! 1) = Some ''1Z999''"
    using all [rule_format, OF i1] by (simp add: fs same del: One_nat_def)
  have r2: "fulfillments data' ! 2 = sampleFulfillment (sampleDate 2024 1 1) ''Scheduled''"
    using all [rule_format, OF i2] other by (simp add: fs)
  show ?thesis using plainData_sampleApp h1 d l len r0 r1 r2 by auto
qed

subsection \<open>Creation\<close>

text \<open>The loop pushes one fulfillment for each index below the duration.\<close>

lemma pushFulfillments_eq:
  "pushFulfillments s t n i fs
     = fs @ map (\<lambda>j. \<lparr>fulfillmentDate = addMonths s j,
                       status = (if j = 0 then ''RX Received'' else ''Scheduled''),
                       tracking = None,
                       rxId = (if j = 0 then Some (''RX-INITIAL-'' @ numberToString t) else None)\<rparr>)
              [i..<nat n]"
proof (induction s t n i fs rule: pushFulfillments.induct)
  case (1 s t n i fs)
  show ?case
  proof (cases "int i < n")
    case True
    then have "i < nat n" by simp
    then have "[i..<nat n] = i # [Suc i..<nat n]" by (rule upt_conv_Cons)
    with True "1.IH" show ?thesis
      by (subst pushFulfillments.simps) simp
  next
    case False
    then show ?thesis by (subst pushFulfillments.simps) simp
  qed
qed

lemma fulfillments_handleSubmit:
  "fulfillments (handleSubmit fd None newDate dateNow logDate)
     = map (\<lambda>j. \<lparr>fulfillmentDate = addMonths newDate j,
                  status = (if j = 0 then ''RX Received'' else ''Scheduled''),
                  tracking = None,
                  rxId = (if j = 0 then Some (''RX-INITIAL-'' @ numberToString dateNow) else None)\<rparr>)
         [0..<nat (form_duration fd)]"
  by (simp add: handleSubmit_def pushFulfillments_eq)

text \<open>A day of the month up to 28 exists in every month, so adding months changes the
  month and the year only.\<close>

lemma rollOver_short: "d \<le> 28 \<Longrightarrow> rollOver y m d = (y, m, d)"
  by (subst rollOver.simps) (simp add: daysInMonth_def)

lemma addMonths_short:
  "dayOfMonth d \<le> 28 \<Longrightarrow>
   addMonths d i = d\<lparr>fullYear := fullYear d + (monthIndex d + i) div 12,
                     monthIndex := (monthIndex d + i) mod 12\<rparr>"
  by (simp add: addMonths_def setMonth_def getMonth_def rollOver_short)

text \<open>
  What creation does for every start date: a subscription of a positive duration \<open>n\<close> gets
  exactly \<open>n\<close> fulfillments, fulfillment \<open>i\<close> dated \<open>addMonths startDate i\<close>; fulfillment 0
  is 'RX Received' and has a prescription id, every later one is 'Scheduled' with
  neither tracking value nor prescription id. For a start on a day of the month up to 28
  the date of fulfillment \<open>i\<close> is the same day and time of day, \<open>i\<close> calendar months on.
\<close>

theorem handleSubmit_materializes:
  assumes "0 < form_duration fd"
  shows "length (fulfillments (handleSubmit fd None newDate dateNow logDate)) = nat (form_duration fd)
    \<and> startDate (handleSubmit fd None newDate dateNow logDate) = newDate
    \<and> (\<forall>i < nat (form_duration fd).
          fulfillmentDate (fulfillments (handleSubmit fd None newDate dateNow logDate) ! i)
            = addMonths newDate i
          \<and> (dayOfMonth newDate \<le> 28 \<longrightarrow>
               fulfillmentDate (fulfillments (handleSubmit fd None newDate dateNow logDate) ! i)
                 = newDate\<lparr>fullYear := fullYear newDate + (monthIndex newDate + i) div 12,
                           monthIndex := (monthIndex newDate + i) mod 12\<rparr>))
    \<and> fulfillment.status (fulfillments (handleSubmit fd None newDate dateNow logDate) ! 0) = ''RX Received''
    \<and> rxId (fulfillments (handleSubmit fd None newDate dateNow logDate) ! 0) \<noteq> None
    \<and> (\<forall>i. 1 \<le> i \<and> i < nat (form_duration fd) \<longrightarrow>
          fulfillment.status (fulfillments (handleSubmit fd None newDate dateNow logDate) ! i) = ''Scheduled''
          \<and> tracking (fulfillments (handleSubmit fd None newDate dateNow logDate) ! i) = None
          \<and> rxId (fulfillments (handleSubmit fd None newDate dateNow logDate) ! i) = None)"
  using assms unfolding fulfillments_handleSubmit
  by (auto simp: addMonths_short handleSubmit_def)


text \<open>A start on the 29th, 30th or 31st follows \<^verbatim>\<open>setMonth\<close>: \<open>addMonths\<close> hands the day of
  the month on as it is, and a day the target month lacks runs over into the month after
  it.\<close>

lemma addMonths_end_of_month:
  "addMonths (sampleDate 2024 0 31) 1 = sampleDate 2024 2 2
   \<and> addMonths (sampleDate 2024 0 31) 2 = sampleDate 2024 2 31
   \<and> addMonths (sampleDate 2023 0 31) 1 = sampleDate 2023 2 3"
  by (simp add: addMonths_def setMonth_def getMonth_def sampleDate_def rollOver.simps
      daysInMonth_def inLeapYear_def)

text \<open>
  C7. A subscription of three months created on 31 January 2024: the fulfillments are
  dated 31 January, 2 March and 31 March. Fulfillment 1 is not dated one month after the
  start: February has no fulfillment and March has two, 29 days apart.
\<close>

theorem handleSubmit_end_of_month:
  "map fulfillmentDate
       (fulfillments (handleSubmit (sampleForm 3) None (sampleDate 2024 0 31) 1706659200000
          (sampleDate 2024 0 31)))
     = [sampleDate 2024 0 31, sampleDate 2024 2 2, sampleDate 2024 2 31]
   \<and> map (\<lambda>f. monthIndex (fulfillmentDate f))
       (fulfillments (handleSubmit (sampleForm 3) None (sampleDate 2024 0 31) 1706659200000
          (sampleDate 2024 0 31)))
     = [0, 2, 2]
   \<and> map (\<lambda>f. (getTime (fulfillmentDate f) - getTime (sampleDate 2024 0 31)) div 86400000)
       (fulfillments (handleSubmit (sampleForm 3) None (sampleDate 2024 0 31) 1706659200000
          (sampleDate 2024 0 31)))
     = [0, 31, 60]"
proof -
  let ?fs = "fulfillments (handleSubmit (sampleForm 3) None (sampleDate 2024 0 31) 1706659200000
          (sampleDate 2024 0 31))"
  have idx: "[0..<nat (form_duration (sampleForm 3))] = [0, 1, 2]"
    by (simp add: sampleForm_def upt_rec)
  have a0: "addMonths (sampleDate 2024 0 31) 0 = sampleDate 2024 0 31"
    and a1: "addMonths (sampleDate 2024 0 31) 1 = sampleDate 2024 2 2"
    and a2: "addMonths (sampleDate 2024 0 31) 2 = sampleDate 2024 2 31"
    by (simp_all add: addMonths_def setMonth_def getMonth_def sampleDate_def rollOver.simps
        daysInMonth_def inLeapYear_def)
  have dates: "map fulfillmentDate ?fs
      = [sampleDate 2024 0 31, sampleDate 2024 2 2, sampleDate 2024 2 31]"
    unfolding fulfillments_handleSubmit idx by (simp add: a0 a1 a2 del: One_nat_def)
  have months: "map monthIndex [sampleDate 2024 0 31, sampleDate 2024 2 2, sampleDate 2024 2 31]
      = [0, 2, 2]"
    by (simp add: sampleDate_def)
  have days: "map (\<lambda>d. (getTime d - getTime (sampleDate 2024 0 31)) div 86400000)
        [sampleDate 2024 0 31, sampleDate 2024 2 2, sampleDate 2024 2 31]
      = [0, 31, 60]"
    by (simp add: sampleDate_def getTime_def makeDay_def dayFromYear_def daysInMonth_def
        inLeapYear_def upt_rec)
  have "map (\<lambda>f. monthIndex (fulfillmentDate f)) ?fs = map monthIndex (map fulfillmentDate ?fs)"
    and "map (\<lambda>f. (getTime (fulfillmentDate f) - getTime (sampleDate 2024 0 31)) div 86400000) ?fs
      = map (\<lambda>d. (getTime d - getTime (sampleDate 2024 0 31)) div 86400000)
          (map fulfillmentDate ?fs)"
    by (simp_all add: comp_def)
  then show ?thesis
    unfolding dates months days using dates by simp
qed

text \<open>The scenario of the specification, a start on 1 January 2024.\<close>

theorem handleSubmit_materializes_witness:
  "0 < form_duration (sampleForm 3)
   \<and> length (fulfillments (handleSubmit (sampleForm 3) None (sampleDate 2024 0 1) 1704067200000
         (sampleDate 2024 0 1))) = 3
   \<and> fulfillmentDate (fulfillments (handleSubmit (sampleForm 3) None (sampleDate 2024 0 1)
         1704067200000 (sampleDate 2024 0 1)) ! 0) = sampleDate 2024 0 1
   \<and> fulfillmentDate (fulfillments (handleSubmit (sampleForm 3) None (sampleDate 2024 0 1)
         1704067200000 (sampleDate 2024 0 1)) ! 1) = sampleDate 2024 1 1
   \<and> fulfillmentDate (fulfillments (handleSubmit (sampleForm 3) None (sampleDate 2024 0 1)
         1704067200000 (sampleDate 2024 0 1)) ! 2) = sampleDate 2024 2 1
   \<and> fulfillment.status (fulfillments (handleSubmit (sampleForm 3) None (sampleDate 2024 0 1)
         1704067200000 (sampleDate 2024 0 1)) ! 0) = ''RX Received''
   \<and> rxId (fulfillments (handleSubmit (sampleForm 3) None (sampleDate 2024 0 1)
         1704067200000 (sampleDate 2024 0 1)) ! 0) \<noteq> None
   \<and> fulfillment.status (fulfillments (handleSubmit (sampleForm 3) None (sampleDate 2024 0 1)
         1704067200000 (sampleDate 2024 0 1)) ! 1) = ''Scheduled''
   \<and> rxId (fulfillments (handleSubmit (sampleForm 3) None (sampleDate 2024 0 1)
         1704067200000 (sampleDate 2024 0 1)) ! 2) = None"
proof -
  let ?fs = "fulfillments (handleSubmit (sampleForm 3) None (sampleDate 2024 0 1) 1704067200000
         (sampleDate 2024 0 1))"
  have h: "0 < form_duration (sampleForm 3)"
    by (simp add: sampleForm_def)
  have n: "nat (form_duration (sampleForm 3)) = 3"
    by (simp add: sampleForm_def)
  have day: "dayOfMonth (sampleDate 2024 0 1) \<le> 28"
    by (simp add: sampleDate_def)
  note t = handleSubmit_materializes [OF h, of "sampleDate 2024 0 1" 1704067200000 "sampleDate 2024 0 1",
      unfolded n]
  have len: "length ?fs = 3" and s0: "fulfillment.status (?fs ! 0) = ''RX Received''"
    and r0: "rxId (?fs ! 0) \<noteq> None"
    using t by blast+
  have dates: "\<And>i. i < 3 \<Longrightarrow> fulfillmentDate (?fs ! i)
      = (sampleDate 2024 0 1)\<lparr>fullYear := fullYear (sampleDate 2024 0 1)
             + (monthIndex (sampleDate 2024 0 1) + i) div 12,
           monthIndex := (monthIndex (sampleDate 2024 0 1) + i) mod 12\<rparr>"
    using t day by blast
  have later: "\<And>i. 1 \<le> i \<Longrightarrow> i < 3 \<Longrightarrow> fulfillment.status (?fs ! i) = ''Scheduled''
      \<and> rxId (?fs ! i) = None"
    using t by blast
  have d0: "fulfillmentDate (?fs ! 0) = sampleDate 2024 0 1"
    using dates [of 0] by (simp add: sampleDate_def)
  have d1: "fulfillmentDate (?fs ! 1) = sampleDate 2024 1 1"
    using dates [of 1] by (simp add: sampleDate_def)
  have d2: "fulfillmentDate (?fs ! 2) = sampleDate 2024 2 1"
    using dates [of 2] by (simp add: sampleDate_def)
  show ?thesis
    using h len d0 d1 d2 s0 r0 later [of 1] later [of 2] by simp
qed

subsection \<open>The number of fulfillments\<close>

lemma map_of_distinct_member:
  "distinct (map fst ds) \<Longrightarrow> (k, d) \<in> set ds \<Longrightarrow> map_of ds k = Some d"
  by simp

lemma addLog_keeps_fulfillments:
  "map (\<lambda>(i, d). (i, fulfillments d, duration d)) (docs (addLog subscriptions now subId m a ap))
     = map (\<lambda>(i, d). (i, fulfillments d, duration d)) (docs ap)"
  by (auto simp: addLog_def updateDoc_def Let_def split: option.splits prod.splits)

lemma applyTransition_keeps_counts:
  assumes plain: "plainData (docs ap)" and "distinct (map fst (docs ap))"
  shows "map (\<lambda>(i, d). (i, length (fulfillments d), duration d))
            (docs (applyTransition now subId key newStatus tr ap))
       = map (\<lambda>(i, d). (i, length (fulfillments d), duration d)) (docs ap)"
proof (cases "map_of (docs ap) subId")
  case None
  with plain show ?thesis by (simp add: applyTransition_missing)
next
  case (Some data)
  have "\<And>d. (subId, d) \<in> set (docs ap) \<Longrightarrow> d = data"
    using assms(2) Some by (metis map_of_distinct_member option.inject)
  then show ?thesis
    by (simp add: applyTransition_found [OF plain Some]) (auto split: prod.splits)
qed

text \<open>
  C8. At creation the number of fulfillments is the duration. A transition and a log
  append leave the number of fulfillments and the duration of every stored subscription
  as they were (for a store with distinct ids whose data carries no id of its own).
\<close>

theorem fulfillment_count_fixed:
  "(0 \<le> form_duration fd \<longrightarrow>
      int (length (fulfillments (handleSubmit fd None newDate dateNow logDate)))
        = duration (handleSubmit fd None newDate dateNow logDate))
   \<and> (plainData (docs ap) \<and> distinct (map fst (docs ap)) \<longrightarrow>
        map (\<lambda>(i, d). (i, length (fulfillments d), duration d))
            (docs (applyTransition now subId key newStatus tr ap))
          = map (\<lambda>(i, d). (i, length (fulfillments d), duration d)) (docs ap))
   \<and> map (\<lambda>(i, d). (i, length (fulfillments d), duration d))
          (docs (addLog (onSnapshot (docs ap)) now subId message' actor' ap))
       = map (\<lambda>(i, d). (i, length (fulfillments d), duration d)) (docs ap)"
proof (intro conjI impI)
  assume "0 \<le> form_duration fd"
  then show "int (length (fulfillments (handleSubmit fd None newDate dateNow logDate)))
        = duration (handleSubmit fd None newDate dateNow logDate)"
    unfolding fulfillments_handleSubmit by (simp add: handleSubmit_def)
next
  assume "plainData (docs ap) \<and> distinct (map fst (docs ap))"
  then have "plainData (docs ap)" and "distinct (map fst (docs ap))"
    by simp_all
  then show "map (\<lambda>(i, d). (i, length (fulfillments d), duration d))
            (docs (applyTransition now subId key newStatus tr ap))
          = map (\<lambda>(i, d). (i, length (fulfillments d), duration d)) (docs ap)"
    by (rule applyTransition_keeps_counts)
next
  have "map ((\<lambda>(i, fs, n). (i, length fs, n)) \<circ> (\<lambda>(i, d). (i, fulfillments d, duration d)))
          (docs (addLog (onSnapshot (docs ap)) now subId message' actor' ap))
      = map ((\<lambda>(i, fs, n). (i, length fs, n)) \<circ> (\<lambda>(i, d). (i, fulfillments d, duration d)))
          (docs ap)"
    unfolding map_map [symmetric] addLog_keeps_fulfillments ..
  then show "map (\<lambda>(i, d). (i, length (fulfillments d), duration d))
          (docs (addLog (onSnapshot (docs ap)) now subId message' actor' ap))
       = map (\<lambda>(i, d). (i, length (fulfillments d), duration d)) (docs ap)"
    by (simp add: comp_def case_prod_unfold)
qed


theorem fulfillment_count_fixed_witness:
  "0 \<le> form_duration (sampleForm 3)
   \<and> int (length (fulfillments (handleSubmit (sampleForm 3) None (sampleDate 2024 0 1)
            1704067200000 (sampleDate 2024 0 1)))) = 3
   \<and> duration (handleSubmit (sampleForm 3) None (sampleDate 2024 0 1)
            1704067200000 (sampleDate 2024 0 1)) = 3
   \<and> plainData (docs sampleApp)
   \<and> distinct (map fst (docs sampleApp))
   \<and> map (\<lambda>(i, d). (i, length (fulfillments d), duration d))
          (docs (applyTransition (sampleDate 2024 0 5) ''sub1''
             (sampleFulfillment (sampleDate 2024 0 1) ''RX Received'') ''Shipped''
             (Some ''1Z999'') sampleApp))
       = [(''sub1'', 3, 3), (''sub2'', 3, 3)]
   \<and> map (\<lambda>(i, d). (i, length (fulfillments d), duration d))
          (docs (addLog (onSnapshot (docs sampleApp)) (sampleDate 2024 0 5) ''sub1''
             ''Called the patient.'' ''Pharmacy Staff'' sampleApp))
       = [(''sub1'', 3, 3), (''sub2'', 3, 3)]"
proof -
  have h1: "0 \<le> form_duration (sampleForm 3)"
    by (simp add: sampleForm_def)
  have h2: "distinct (map fst (docs sampleApp))"
    by (simp add: sampleApp_def)
  have dur: "duration (handleSubmit (sampleForm 3) None (sampleDate 2024 0 1)
            1704067200000 (sampleDate 2024 0 1)) = 3"
    by (simp add: handleSubmit_def sampleForm_def)
  have before: "map (\<lambda>(i, d). (i, length (fulfillments d), duration d)) (docs sampleApp)
      = [(''sub1'', 3, 3), (''sub2'', 3, 3)]"
    by (simp add: sample_defs)
  show ?thesis
    using fulfillment_count_fixed [of "sampleForm 3" "sampleDate 2024 0 1" 1704067200000
        "sampleDate 2024 0 1" sampleApp "sampleDate 2024 0 5" "''sub1''"
        "sampleFulfillment (sampleDate 2024 0 1) ''RX Received''" "''Shipped''" "Some ''1Z999''"
        "''Called the patient.''" "''Pharmacy Staff''"]
      h1 h2 plainData_sampleApp
    unfolding dur before by simp
qed

subsection \<open>Sorting by insertion\<close>

text \<open>Both engines return a rearrangement of their input.\<close>

lemma set_insertBackwards [simp]: "set (insertBackwards gb x ys) = insert x (set ys)"
  by (induction ys) auto

lemma mset_insertBackwards [simp]: "mset (insertBackwards gb x ys) = add_mset x (mset ys)"
  by (induction ys) auto






subsection \<open>The comparison function and the display order\<close>














lemma sorted_respectsComparator:
  assumes "mset ys = mset xs" and "sorted_wrt (\<lambda>a b. comparefn a b \<le> 0) ys"
  shows "respectsComparator comparefn xs ys"
proof -
  have "sorted_wrt (\<lambda>a b. \<not> (comparefn a b > 0 \<and> comparefn b a < 0)) ys"
    using assms(2) by (rule sorted_wrt_mono_rel [rotated]) simp
  with assms(1) show ?thesis by (simp add: respectsComparator_def)
qed


subsection \<open>Ties\<close>

text \<open>Elements that the deciding test never moves past each other keep their input
  order.\<close>

lemma filter_insertBackwards_other:
  "\<not> P x \<Longrightarrow> filter P (insertBackwards gb x ys) = filter P ys"
  by (induction ys) auto

lemma filter_insertBackwards_tie:
  assumes "P x" and "\<And>y. P y \<Longrightarrow> \<not> gb x y"
  shows "filter P (insertBackwards gb x ys) = x # filter P ys"
  using assms by (induction ys) auto

lemma filter_foldl_insertBackwards:
  assumes "\<And>x y. P x \<Longrightarrow> P y \<Longrightarrow> \<not> gb x y"
  shows "filter P (foldl (\<lambda>placed x. insertBackwards gb x placed) acc xs)
     = rev (filter P xs) @ filter P acc"
proof (induction xs arbitrary: acc)
  case Nil
  show ?case by simp
next
  case (Cons x xs)
  show ?case
  proof (cases "P x")
    case True
    then have "filter P (insertBackwards gb x acc) = x # filter P acc"
      using assms by (intro filter_insertBackwards_tie) auto
    with True Cons.IH show ?thesis by simp
  next
    case False
    with Cons.IH show ?thesis by (simp add: filter_insertBackwards_other)
  qed
qed

lemma filter_insertionSort:
  assumes "\<And>x y. P x \<Longrightarrow> P y \<Longrightarrow> \<not> gb x y"
  shows "filter P (insertionSort gb xs) = filter P xs"
  by (simp add: insertionSort_def rev_filter [symmetric] filter_foldl_insertBackwards [OF assms])


text \<open>Two subscriptions of the same group with equal next actionable dates compare as
  equal, so both engines keep them in input order.\<close>

lemma compare_tie:
  assumes "(subscription.status a = ''Action Required'') = (subscription.status b = ''Action Required'')"
    and "getNextActionableDate a = Some da" and "getNextActionableDate b = Some db"
    and "getTime da = getTime db"
  shows "compareSubscriptions a b = 0"
  using assms by (auto simp: compareSubscriptions_def)

lemma sortedSubscriptions_stable_dated:
  assumes engine: "arraySort = sortNewFirst \<or> arraySort = sortOldFirst"
  shows "filter (\<lambda>s. (subscription.status s = ''Action Required'') = c
                      \<and> map_option getTime (getNextActionableDate s) = Some t)
           (sortedSubscriptions arraySort subs)
       = filter (\<lambda>s. (subscription.status s = ''Action Required'') = c
                      \<and> map_option getTime (getNextActionableDate s) = Some t) subs"
proof -
  let ?P = "\<lambda>s. (subscription.status s = ''Action Required'') = c
                      \<and> map_option getTime (getNextActionableDate s) = Some t"
  have tie: "compareSubscriptions x y = 0" if "?P x" "?P y" for x y
  proof -
    from that obtain dx dy where "getNextActionableDate x = Some dx"
      "getNextActionableDate y = Some dy" "getTime dx = getTime dy"
      by auto
    moreover have "(subscription.status x = ''Action Required'')
        = (subscription.status y = ''Action Required'')"
      using that by simp
    ultimately show ?thesis by (intro compare_tie)
  qed
  from engine show ?thesis
  proof
    assume "arraySort = sortNewFirst"
    moreover have "filter ?P (insertionSort (\<lambda>x y. compareSubscriptions x y < 0) subs) = filter ?P subs"
      by (rule filter_insertionSort) (simp add: tie)
    ultimately show ?thesis by (simp add: sortedSubscriptions_def sortNewFirst_def)
  next
    assume "arraySort = sortOldFirst"
    moreover have "filter ?P (insertionSort (\<lambda>x y. compareSubscriptions y x > 0) subs) = filter ?P subs"
      by (rule filter_insertionSort) (simp add: tie)
    ultimately show ?thesis by (simp add: sortedSubscriptions_def sortOldFirst_def)
  qed
qed

text \<open>Two subscriptions without a next actionable date do not compare as equal: the
  comparison function answers 1 whichever comes first, and the engine that asks with the
  earlier element first swaps them.\<close>

lemma compare_undated:
  assumes "subscription.status a \<noteq> ''Action Required''" "subscription.status b \<noteq> ''Action Required''"
    and "getNextActionableDate a = None"
  shows "compareSubscriptions a b = 1"
  using assms by (simp add: compareSubscriptions_def)

lemma sort_undated_pair:
  assumes "subscription.status a \<noteq> ''Action Required''" "subscription.status b \<noteq> ''Action Required''"
    and "getNextActionableDate a = None" "getNextActionableDate b = None"
  shows "sortedSubscriptions sortOldFirst [a, b] = [b, a]"
    and "sortedSubscriptions sortNewFirst [a, b] = [a, b]"
  using compare_undated [OF assms(1,2,3)] compare_undated [OF assms(2,1,4)]
  by (simp_all add: sortedSubscriptions_def sortOldFirst_def sortNewFirst_def insertionSort_def)

lemma sampleDone_derived:
  "updatedSubs [sampleDone n, sampleDone m]
     = [(sampleDone n)\<lparr>subscription.status := ''Fulfilled''\<rparr>,
        (sampleDone m)\<lparr>subscription.status := ''Fulfilled''\<rparr>]"
  by (simp add: updatedSubs_def overallStatus_def sampleDone_def sampleSubscription_def
      sampleFulfillment_def)

lemma sampleDone_undated:
  "getNextActionableDate ((sampleDone n)\<lparr>subscription.status := ''Fulfilled''\<rparr>) = None"
  by (simp add: getNextActionableDate_def sampleDone_def sampleSubscription_def
      sampleFulfillment_def)

text \<open>
  C6. The comparison function evaluated on two fully shipped subscriptions, which have
  equal sort keys: it answers 1 for both argument orders, one engine returns them
  swapped and the other in input order.
\<close>

theorem sortedSubscriptions_undated_tie:
  "compareSubscriptions (updatedSubs [sampleDone ''Patient-A'', sampleDone ''Patient-B''] ! 0)
       (updatedSubs [sampleDone ''Patient-A'', sampleDone ''Patient-B''] ! 1) = 1
   \<and> compareSubscriptions (updatedSubs [sampleDone ''Patient-A'', sampleDone ''Patient-B''] ! 1)
       (updatedSubs [sampleDone ''Patient-A'', sampleDone ''Patient-B''] ! 0) = 1
   \<and> sortedSubscriptions sortOldFirst (updatedSubs [sampleDone ''Patient-A'', sampleDone ''Patient-B''])
       = updatedSubs [sampleDone ''Patient-B'', sampleDone ''Patient-A'']
   \<and> sortedSubscriptions sortNewFirst (updatedSubs [sampleDone ''Patient-A'', sampleDone ''Patient-B''])
       = updatedSubs [sampleDone ''Patient-A'', sampleDone ''Patient-B'']"
proof -
  let ?a = "(sampleDone ''Patient-A'')\<lparr>subscription.status := ''Fulfilled''\<rparr>"
  let ?b = "(sampleDone ''Patient-B'')\<lparr>subscription.status := ''Fulfilled''\<rparr>"
  have st: "subscription.status ?a \<noteq> ''Action Required''"
    "subscription.status ?b \<noteq> ''Action Required''"
    by simp_all
  have und: "getNextActionableDate ?a = None" "getNextActionableDate ?b = None"
    by (rule sampleDone_undated)+
  show ?thesis
    unfolding sampleDone_derived
    using compare_undated [OF st(1) st(2) und(1)] compare_undated [OF st(2) st(1) und(2)]
      sort_undated_pair [OF st und]
    by simp
qed

subsection \<open>The sample board, sorted\<close>


end
